theory Spec2Isabelle
  imports Complex_Main "HOL-Library.Word" "HOL-Library.Monad_Syntax" "HOL-Library.Sublist"
begin

section \<open>Event track of an animation node\<close>

text \<open>
  The engine node (\<open>Anim::Node\<close>) keeps its events in one byte array \<open>events\<close>
  (an array of \<open>u8\<close>) together with the counter \<open>events_count\<close>.  The array holds
  \<open>events_count\<close> fixed-size headers followed by the payload region;
  \<open>state_machine_editor.cpp\<close> edits it in place with \<open>moveMemory\<close>.
\<close>

type_synonym u8 = "8 word"
type_synonym u16 = "16 word"

text \<open>
  Modelled from the spec: the layout of \<open>Anim::EventHeader\<close> and the size of
  \<open>Anim::SetInputEvent\<close> (\<open>animation/events.h\<close> is not among the sources).  The
  spec gives the header as the fixed-size record
  \<open>{time: float, type: enum, size: integer, payload_offset: integer}\<close>; it is laid
  out here as four bytes of time, one byte of type, one byte of size and two bytes
  (little endian) of offset, eight bytes in all.  The payload of a \<open>SetInput\<close> event
  (an input index and a value) takes eight bytes.
\<close>

record EventHeader =
  time_h :: "u8 list"
  type_h :: u8
  size_h :: u8
  offset_h :: u16

definition sizeof_EventHeader :: nat where
  "sizeof_EventHeader = 8"

definition sizeof_SetInputEvent :: nat where
  "sizeof_SetInputEvent = 8"

definition SET_INPUT :: u8 where
  "SET_INPUT = 0"

definition header_bytes :: "EventHeader \<Rightarrow> u8 list" where
  "header_bytes h =
     take 4 (time_h h @ replicate 4 0) @
     [type_h h, size_h h, ucast (offset_h h), ucast (drop_bit 8 (offset_h h))]"

text \<open>
  \<open>*(Anim::EventHeader*)&events[p]\<close>: the header stored at byte position \<open>p\<close>;
  \<open>None\<close> when the eight bytes do not lie inside the array.
\<close>

definition read_header :: "u8 list \<Rightarrow> nat \<Rightarrow> EventHeader option" where
  "read_header ev p =
     (if p + sizeof_EventHeader \<le> length ev
      then Some \<lparr> time_h = take 4 (drop p ev),
                  type_h = ev ! (p + 4),
                  size_h = ev ! (p + 5),
                  offset_h = ucast (ev ! (p + 6)) + push_bit 8 (ucast (ev ! (p + 7))) \<rparr>
      else None)"

definition write_header :: "u8 list \<Rightarrow> nat \<Rightarrow> EventHeader \<Rightarrow> u8 list option" where
  "write_header ev p h =
     (if p + sizeof_EventHeader \<le> length ev
      then Some (take p ev @ header_bytes h @ drop (p + sizeof_EventHeader) ev)
      else None)"

text \<open>
  \<open>moveMemory(dest, src, count)\<close> on positions of one array: \<open>cnt\<close> bytes starting
  at \<open>src\<close> are copied to \<open>dest\<close>, the regions may overlap.  An access outside the
  array is \<open>None\<close>.
\<close>

definition moveMemory :: "u8 list \<Rightarrow> nat \<Rightarrow> nat \<Rightarrow> nat \<Rightarrow> u8 list option" where
  "moveMemory ev dest src cnt =
     (if src + cnt \<le> length ev \<and> dest + cnt \<le> length ev
      then Some (take dest ev @ take cnt (drop src ev) @ drop (dest + cnt) ev)
      else None)"

record AnimNode =
  events :: "u8 list"
  events_count :: int

text \<open>
  \<open>Node::removeEvent(int index)\<close>, lines 111-127.  Positions are offsets from the
  start of \<open>events\<close>; a pointer difference that would be negative makes the
  \<open>moveMemory\<close> size wrap around and is an access outside the array (\<open>None\<close>).
  The array is not resized and no other header is written.
\<close>

definition removeEvent :: "AnimNode \<Rightarrow> int \<Rightarrow> AnimNode option" where
  "removeEvent n index =
     (if index < 0 \<or> events_count n < 0 then None
      else
        let ev = events n;
            header_start = sizeof_EventHeader * nat index
        in case read_header ev header_start of
             None \<Rightarrow> None
           | Some header \<Rightarrow>
               let headers_end = sizeof_EventHeader * nat (events_count n);
                   end = length ev;
                   event_start = headers_end + unat (offset_h header);
                   event_end = event_start + unat (size_h header);
                   header_end = header_start + sizeof_EventHeader
               in if event_start < header_end \<or> end < event_end then None
                  else
                    (case moveMemory ev header_start header_end (event_start - header_end) of
                       None \<Rightarrow> None
                     | Some ev1 \<Rightarrow>
                         (case moveMemory ev1 (event_start - sizeof_EventHeader) event_end
                                 (end - event_end) of
                            None \<Rightarrow> None
                          | Some ev2 \<Rightarrow>
                              Some (n \<lparr> events := ev2,
                                        events_count := events_count n - 1 \<rparr>))))"

text \<open>
  The \<open>newEvent\<close> lambda of \<open>Node::onGUI\<close>, lines 185-197: \<open>events.resize\<close> appends
  \<open>size + sizeof(EventHeader)\<close> bytes (modelled as zero bytes), \<open>moveMemory\<close> is
  called with destination \<open>headers_end\<close> and source
  \<open>headers_end + sizeof(EventHeader)\<close>, and the new header is written at
  \<open>headers_end\<close>.  The fields \<open>size\<close> and \<open>offset\<close> are narrowed to the header's
  field widths.
\<close>

definition newEvent :: "AnimNode \<Rightarrow> nat \<Rightarrow> u8 \<Rightarrow> AnimNode option" where
  "newEvent n sz ty =
     (if events_count n < 0
         \<or> length (events n) < sizeof_EventHeader * nat (events_count n) then None
      else
        let old_payload_size = length (events n) - sizeof_EventHeader * nat (events_count n);
            ev = events n @ replicate (sz + sizeof_EventHeader) 0;
            headers_end = nat (events_count n) * sizeof_EventHeader
        in case moveMemory ev headers_end (headers_end + sizeof_EventHeader) old_payload_size of
             None \<Rightarrow> None
           | Some ev1 \<Rightarrow>
               (case write_header ev1 headers_end
                       \<lparr> time_h = replicate 4 0, type_h = ty,
                         size_h = of_nat sz, offset_h = of_nat old_payload_size \<rparr> of
                  None \<Rightarrow> None
                | Some ev2 \<Rightarrow> Some (n \<lparr> events := ev2 \<rparr>)))"

text \<open>
  The "Add event" button of \<open>Node::onGUI\<close>, lines 183-205, with the only event type
  the combo offers: \<open>newEvent(sizeof(SetInputEvent), SET_INPUT)\<close> followed by
  \<open>++events_count\<close>.
\<close>

definition addEvent :: "AnimNode \<Rightarrow> AnimNode option" where
  "addEvent n =
     (case newEvent n sizeof_SetInputEvent SET_INPUT of
        None \<Rightarrow> None
      | Some n1 \<Rightarrow> Some (n1 \<lparr> events_count := events_count n1 + 1 \<rparr>))"

text \<open>The headers of a track, in order, read from the header region.\<close>

definition headers :: "AnimNode \<Rightarrow> EventHeader option list" where
  "headers n =
     map (\<lambda>i. read_header (events n) (sizeof_EventHeader * i)) [0 ..< nat (events_count n)]"

text \<open>
  The payload bytes a header addresses: \<open>size\<close> bytes at \<open>headers_end + offset\<close>
  (as \<open>Node::onGUI\<close> reads them, line 153).
\<close>

definition payload_of :: "AnimNode \<Rightarrow> EventHeader \<Rightarrow> u8 list" where
  "payload_of n h =
     take (unat (size_h h))
       (drop (sizeof_EventHeader * nat (events_count n) + unat (offset_h h)) (events n))"

text \<open>The sum of the declared event sizes plus the header bytes.\<close>

definition declared_length :: "AnimNode \<Rightarrow> nat" where
  "declared_length n =
     sum_list (map (\<lambda>h. case h of None \<Rightarrow> 0 | Some x \<Rightarrow> unat (size_h x)) (headers n))
       + sizeof_EventHeader * nat (events_count n)"

definition empty_track :: AnimNode where
  "empty_track = \<lparr> events = [], events_count = 0 \<rparr>"


section \<open>The controller graph\<close>

text \<open>
  The editor keeps a tree of components (\<open>AnimEditor::Component\<close> and its
  subclasses), owned through \<open>Container::m_editor_cmps\<close>; most editor components
  wrap an engine component (\<open>Anim::Component\<close>, field \<open>engine_cmp\<close>).  Owned
  children are stored inside their container; every other pointer of the source is an
  address.  Engine objects live in a store indexed by address, editor objects carry
  their own address, and both come from the controller's one allocator.
\<close>

type_synonym addr = nat
type_synonym ImVec2 = "real \<times> real"
type_synonym Condition = "u8 list"

datatype CType = EDGE | SIMPLE_ANIMATION | STATE_MACHINE

datatype InputType = FLOAT | INT | BOOL

text \<open>
  Modelled from the spec: the declarations of \<open>Anim::InputDecl\<close>,
  \<open>Anim::Component\<close>, \<open>Anim::Edge\<close>, \<open>Anim::AnimationNode\<close> and
  \<open>Anim::StateMachine\<close> (\<open>animation/state_machine.h\<close> and
  \<open>animation/controller.h\<close> are not among the sources).  Only the fields that
  \<open>state_machine_editor.cpp\<close> reads or writes are kept.  \<open>inputs\<close> is the whole
  array of declaration slots, \<open>inputs_count\<close> the number of slots in use.
\<close>

record Input =
  name_i :: string
  type_i :: InputType
  offset_i :: int

record InputDecl =
  inputs :: "Input list"
  inputs_count :: int

record AnimComponent =
  type_c :: CType
  uid :: int
  children :: "addr list"
  entries :: "(addr option \<times> Condition) list"
  from_e :: "addr option"
  to_e :: "addr option"
  condition :: Condition
  root_rotation_input_offset :: int

text \<open>The fields of \<open>AnimEditor::Node\<close>.\<close>

record Node =
  pos :: ImVec2
  size_n :: ImVec2
  m_name :: string
  m_edges :: "addr list"
  m_in_edges :: "addr list"

text \<open>
  The editor components.  The arguments are, in this order:
  \<^item> \<open>AnimationNode\<close>: own address, \<open>engine_cmp\<close>, node fields, \<open>root_rotation_input\<close>;
  \<^item> \<open>StateMachine\<close>: own address, \<open>engine_cmp\<close>, node fields, \<open>m_editor_cmps\<close>,
    \<open>m_selected_component\<close>, \<open>m_entry_node\<close>;
  \<^item> \<open>EntryNode\<close>: own address, node fields, \<open>entries\<close>;
  \<^item> \<open>Edge\<close>: own address, \<open>engine_cmp\<close>, \<open>m_from\<close>, \<open>m_to\<close>, \<open>m_expression\<close>;
  \<^item> \<open>EntryEdge\<close>: own address, \<open>m_to\<close>, \<open>expression\<close>.
  An entry node and an entry edge have no engine component (\<open>engine_cmp\<close> is null).
\<close>

datatype Component =
    AnimationNode addr addr Node int
  | StateMachine addr addr Node "Component list" "addr option" addr
  | EntryNode addr Node "addr list"
  | Edge addr addr "addr option" "addr option" string
  | EntryEdge addr "addr option" string

fun self :: "Component \<Rightarrow> addr" where
  "self (AnimationNode s e nd r) = s"
| "self (StateMachine s e nd cs sel en) = s"
| "self (EntryNode s nd es) = s"
| "self (Edge s e f t x) = s"
| "self (EntryEdge s t x) = s"

fun engine_cmp :: "Component \<Rightarrow> addr option" where
  "engine_cmp (AnimationNode s e nd r) = Some e"
| "engine_cmp (StateMachine s e nd cs sel en) = Some e"
| "engine_cmp (EntryNode s nd es) = None"
| "engine_cmp (Edge s e f t x) = Some e"
| "engine_cmp (EntryEdge s t x) = None"

fun isNode :: "Component \<Rightarrow> bool" where
  "isNode (AnimationNode s e nd r) = True"
| "isNode (StateMachine s e nd cs sel en) = True"
| "isNode (EntryNode s nd es) = True"
| "isNode (Edge s e f t x) = False"
| "isNode (EntryEdge s t x) = False"

fun node_of :: "Component \<Rightarrow> Node option" where
  "node_of (AnimationNode s e nd r) = Some nd"
| "node_of (StateMachine s e nd cs sel en) = Some nd"
| "node_of (EntryNode s nd es) = Some nd"
| "node_of (Edge s e f t x) = None"
| "node_of (EntryEdge s t x) = None"

fun map_node :: "(Node \<Rightarrow> Node) \<Rightarrow> Component \<Rightarrow> Component" where
  "map_node g (AnimationNode s e nd r) = AnimationNode s e (g nd) r"
| "map_node g (StateMachine s e nd cs sel en) = StateMachine s e (g nd) cs sel en"
| "map_node g (EntryNode s nd es) = EntryNode s (g nd) es"
| "map_node g (Edge s e f t x) = Edge s e f t x"
| "map_node g (EntryEdge s t x) = EntryEdge s t x"

text \<open>
  The part of \<open>AnimEditor::ControllerResource\<close> outside the editor tree: the engine
  objects, the input declaration and the root of \<open>m_engine_resource\<close>,
  \<open>m_last_uid\<close>, and the allocator (the next unused address).
\<close>

record World =
  engine :: "addr \<Rightarrow> AnimComponent"
  input_decl :: InputDecl
  root_e :: addr
  m_last_uid :: int
  next_addr :: addr

record ControllerResource =
  m_root :: Component
  world :: World
  m_animation_slots :: "string list"

definition upd_engine :: "addr \<Rightarrow> (AnimComponent \<Rightarrow> AnimComponent) \<Rightarrow> World \<Rightarrow> World" where
  "upd_engine a g w = w \<lparr> engine := (engine w) (a := g (engine w a)) \<rparr>"

definition alloc :: "World \<Rightarrow> addr \<times> World" where
  "alloc w = (next_addr w, w \<lparr> next_addr := Suc (next_addr w) \<rparr>)"

text \<open>
  Modelled from the spec: \<open>ControllerResource::createUID\<close> (declared in
  \<open>state_machine_editor.h\<close>, not among the sources).  The spec calls
  \<open>m_last_uid\<close> the last-allocated UID counter and UIDs monotonically increasing:
  the counter is incremented and its new value returned.  The counter and the UIDs
  are 32-bit \<open>int\<close>s (\<open>int uid\<close> in lines 389, 656 and 712, \<open>last_uid:int32\<close> in the
  spec's format): the increment wraps around.
\<close>

definition wrap32 :: "int \<Rightarrow> int" where
  "wrap32 i = (i + 2147483648) mod 4294967296 - 2147483648"

definition createUID :: "World \<Rightarrow> int \<times> World" where
  "createUID w = (wrap32 (m_last_uid w + 1), w \<lparr> m_last_uid := wrap32 (m_last_uid w + 1) \<rparr>)"

text \<open>A fresh engine component, as the engine's constructors leave it.\<close>

definition new_AnimComponent :: "CType \<Rightarrow> AnimComponent" where
  "new_AnimComponent ty =
     \<lparr> type_c = ty, uid = -1, children = [], entries = [], from_e = None, to_e = None,
       condition = [], root_rotation_input_offset = -1 \<rparr>"

definition new_Node :: "string \<Rightarrow> Node" where
  "new_Node nm = \<lparr> pos = (0, 0), size_n = (0, 0), m_name = nm, m_edges = [], m_in_edges = [] \<rparr>"

subsection \<open>Children of a container\<close>

definition child_at :: "Component list \<Rightarrow> addr \<Rightarrow> Component option" where
  "child_at cs a = find (\<lambda>c. self c = a) cs"

text \<open>\<open>Container::getChildByUID\<close>, lines 296-303.\<close>

definition getChildByUID :: "World \<Rightarrow> Component list \<Rightarrow> int \<Rightarrow> Component option" where
  "getChildByUID w cs u =
     find (\<lambda>c. case engine_cmp c of None \<Rightarrow> False | Some e \<Rightarrow> uid (engine w e) = u) cs"

text \<open>
  Modelled from the spec: the engine's own \<open>getChildByUID\<close> on the engine
  container at \<open>pe\<close> (a linear lookup among its direct children).
\<close>

definition Anim_getChildByUID :: "World \<Rightarrow> addr \<Rightarrow> int \<Rightarrow> addr option" where
  "Anim_getChildByUID w pe u = find (\<lambda>e. uid (engine w e) = u) (children (engine w pe))"

text \<open>\<open>m_editor_cmps.eraseItem(component)\<close>: the first occurrence is erased.\<close>

fun remove_child :: "addr \<Rightarrow> Component list \<Rightarrow> Component list" where
  "remove_child a [] = []"
| "remove_child a (c # cs) = (if self c = a then cs else c # remove_child a cs)"

text \<open>
  An update through a \<open>Node*\<close>: the child at address \<open>a\<close> is replaced by its image.
  \<open>None\<close> when no live child has that address or the child is not a node.
\<close>

fun update_node :: "addr \<Rightarrow> (Node \<Rightarrow> Node) \<Rightarrow> Component list \<Rightarrow> Component list option" where
  "update_node a g [] = None"
| "update_node a g (c # cs) =
     (if self c = a then (if isNode c then Some (map_node g c # cs) else None)
      else map_option ((#) c) (update_node a g cs))"

fun first_index :: "('a \<Rightarrow> bool) \<Rightarrow> 'a list \<Rightarrow> nat option" where
  "first_index P [] = None"
| "first_index P (x # xs) = (if P x then Some 0 else map_option Suc (first_index P xs))"

text \<open>\<open>Array::erase(i)\<close>.\<close>

definition erase :: "nat \<Rightarrow> 'a list \<Rightarrow> 'a list" where
  "erase i xs = take i xs @ drop (Suc i) xs"

text \<open>
  The mutable state a member function of a \<open>StateMachine\<close> works on: its
  \<open>m_editor_cmps\<close>, its \<open>m_selected_component\<close> and the world.
\<close>

type_synonym pstate = "Component list \<times> addr option \<times> World"

subsection \<open>Construction\<close>

text \<open>
  The \<open>Edge\<close> constructor, lines 306-316, for a new edge at address \<open>s\<close> with engine
  edge \<open>e\<close> in the container whose children are \<open>cs\<close>: both endpoints are looked up
  by the UIDs of the engine edge's endpoints, asserted non-null, and the edge is
  registered with \<open>addEdge\<close> and \<open>addInEdge\<close>.
\<close>

definition Edge_ctor :: "addr \<Rightarrow> addr \<Rightarrow> Component list \<Rightarrow> World \<Rightarrow> (Component \<times> Component list) option" where
  "Edge_ctor s e cs w = do {
     ef \<leftarrow> from_e (engine w e);
     et \<leftarrow> to_e (engine w e);
     f \<leftarrow> getChildByUID w cs (uid (engine w ef));
     t \<leftarrow> getChildByUID w cs (uid (engine w et));
     cs1 \<leftarrow> update_node (self f) (\<lambda>nd. nd \<lparr> m_edges := m_edges nd @ [s] \<rparr>) cs;
     cs2 \<leftarrow> update_node (self t) (\<lambda>nd. nd \<lparr> m_in_edges := m_in_edges nd @ [s] \<rparr>) cs1;
     Some (Edge s e (Some (self f)) (Some (self t)) [], cs2)
   }"

text \<open>
  The \<open>StateMachine\<close> constructor, lines 588-593: the entry node is created with the
  name "Entry" and pushed to \<open>m_editor_cmps\<close>.
\<close>

definition StateMachine_ctor :: "addr \<Rightarrow> addr \<Rightarrow> World \<Rightarrow> Component \<times> World" where
  "StateMachine_ctor s e w =
     (let (en, w1) = alloc w
      in (StateMachine s e (new_Node []) [EntryNode en (new_Node ''Entry'') []] None en, w1))"

text \<open>
  \<open>createComponent\<close>, lines 635-646, called for the engine component \<open>e\<close> inside the
  container with children \<open>cs\<close>.  The result is the new editor component, the
  children (an edge registers itself with its endpoints) and the world.
\<close>

definition createComponent :: "addr \<Rightarrow> Component list \<Rightarrow> World \<Rightarrow> (Component \<times> Component list \<times> World) option" where
  "createComponent e cs w =
     (let (s, w1) = alloc w
      in case type_c (engine w e) of
           EDGE \<Rightarrow> map_option (\<lambda>(c, cs1). (c, cs1, w1)) (Edge_ctor s e cs w1)
         | SIMPLE_ANIMATION \<Rightarrow> Some (AnimationNode s e (new_Node []) (-1), cs, w1)
         | STATE_MACHINE \<Rightarrow> (let (c, w2) = StateMachine_ctor s e w1 in Some (c, cs, w2)))"

text \<open>
  Modelled from the spec: \<open>Anim::createComponent(type, allocator)\<close>, the engine's
  factory (not among the sources): a fresh engine component of the given type.
\<close>

definition Anim_createComponent :: "CType \<Rightarrow> World \<Rightarrow> addr \<times> World" where
  "Anim_createComponent ty w =
     (let (e, w1) = alloc w in (e, upd_engine e (\<lambda>_. new_AnimComponent ty) w1))"

text \<open>
  \<open>StateMachine::createState\<close>, lines 691-701, on the state machine with engine
  component \<open>pe\<close>.
\<close>

definition createState :: "addr \<Rightarrow> CType \<Rightarrow> ImVec2 \<Rightarrow> pstate \<Rightarrow> pstate option" where
  "createState pe ty p = (\<lambda>(cs, sel, w).
     let (e, w1) = Anim_createComponent ty w
     in do {
       (c, cs1, w2) \<leftarrow> createComponent e cs w1;
       (if isNode c then Some () else None);
       let c1 = map_node (\<lambda>nd. nd \<lparr> pos := p, size_n := (100, 30) \<rparr>) c;
           (u, w3) = createUID w2;
           w4 = upd_engine e (\<lambda>x. x \<lparr> uid := u \<rparr>) w3;
           w5 = upd_engine pe (\<lambda>x. x \<lparr> children := children x @ [e] \<rparr>) w4
       in Some (cs1 @ [c1], Some (self c1), w5)
     })"

text \<open>
  The \<open>EntryEdge\<close> constructor, lines 504-511, and \<open>StateMachine::createEntryEdge\<close>,
  lines 765-774: the new entry edge is pushed to the entry node's \<open>entries\<close> and to
  \<open>m_editor_cmps\<close>, and the engine state machine gets a new entry whose node is the
  target's engine component.  \<open>en\<close> is \<open>m_entry_node\<close>, \<open>node\<close> the target.
\<close>

fun push_entry :: "addr \<Rightarrow> addr \<Rightarrow> Component list \<Rightarrow> Component list option" where
  "push_entry en s [] = None"
| "push_entry en s (c # cs) =
     (if self c = en
      then (case c of EntryNode a nd es \<Rightarrow> Some (EntryNode a nd (es @ [s]) # cs) | _ \<Rightarrow> None)
      else map_option ((#) c) (push_entry en s cs))"

definition createEntryEdge :: "addr \<Rightarrow> addr \<Rightarrow> addr \<Rightarrow> pstate \<Rightarrow> pstate option" where
  "createEntryEdge pe en node = (\<lambda>(cs, sel, w).
     let (s, w1) = alloc w
     in do {
       cs1 \<leftarrow> push_entry en s cs;
       n \<leftarrow> child_at cs1 node;
       let w2 = upd_engine pe (\<lambda>x. x \<lparr> entries := entries x @ [(engine_cmp n, [])] \<rparr>) w1
       in Some (cs1 @ [EntryEdge s (Some node) []], sel, w2)
     })"

text \<open>
  The release of the right mouse button in \<open>StateMachine::drawInside\<close>, lines
  815-846, while a new edge is being dragged from the node \<open>drag\<close> and the mouse is
  over the child \<open>hit\<close>: an entry edge when one end is the entry node, otherwise a new
  engine edge with a fresh UID and its editor edge, which becomes the selection.
\<close>

definition releaseNewEdge :: "addr \<Rightarrow> addr \<Rightarrow> addr \<Rightarrow> addr \<Rightarrow> pstate \<Rightarrow> pstate option" where
  "releaseNewEdge pe en drag hit = (\<lambda>(cs, sel, w). do {
     d \<leftarrow> child_at cs drag;
     h \<leftarrow> child_at cs hit;
     (if isNode d then Some () else None);
     (if hit \<noteq> drag \<and> isNode h then
        (if hit = en then createEntryEdge pe en drag (cs, sel, w)
         else if drag = en then createEntryEdge pe en hit (cs, sel, w)
         else
           let (e, w1) = alloc w;
               (u, w2) = createUID w1;
               w3 = upd_engine e (\<lambda>_. (new_AnimComponent EDGE)
                       \<lparr> uid := u, from_e := engine_cmp d, to_e := engine_cmp h \<rparr>) w2;
               w4 = upd_engine pe (\<lambda>x. x \<lparr> children := children x @ [e] \<rparr>) w3
           in do {
             (c, cs1, w5) \<leftarrow> createComponent e cs w4;
             Some (cs1 @ [c], Some (self c), w5)
           })
      else Some (cs, sel, w))
   })"


subsection \<open>Removal\<close>

text \<open>\<open>Container::removeChild\<close>, lines 277-283.\<close>

definition Container_removeChild :: "addr \<Rightarrow> Component \<Rightarrow> pstate \<Rightarrow> pstate" where
  "Container_removeChild pe c = (\<lambda>(cs, sel, w).
     (remove_child (self c) cs,
      (if sel = Some (self c) then None else sel),
      (case engine_cmp c of
         None \<Rightarrow> w
       | Some e \<Rightarrow> upd_engine pe (\<lambda>x. x \<lparr> children := remove1 e (children x) \<rparr>) w)))"

text \<open>
  \<open>StateMachine::removeChild\<close>, lines 596-609, on the state machine with engine
  component \<open>pe\<close> and entry node \<open>en\<close>.  After \<open>Container::removeChild\<close> the loop
  looks for the first engine entry whose node is the component's \<open>engine_cmp\<close>; it
  erases that engine entry, deletes the editor entry edge stored at the same index of
  the entry node's \<open>entries\<close>, and stops.  Deleting the entry edge runs
  \<open>~EntryEdge\<close> (lines 514-517) and \<open>~Component\<close> (lines 72-78), each of which
  calls \<open>removeChild\<close> again; nothing erases the pointer from \<open>entries\<close>.  Reading
  \<open>entries[i]\<close> out of range, or deleting an object that is not a live child, is
  \<open>None\<close>.  The first argument bounds the depth of the nested calls.
\<close>

fun StateMachine_removeChild :: "nat \<Rightarrow> addr \<Rightarrow> addr \<Rightarrow> Component \<Rightarrow> pstate \<Rightarrow> pstate option" where
  "StateMachine_removeChild 0 pe en c P = None"
| "StateMachine_removeChild (Suc k) pe en c P =
     (case Container_removeChild pe c P of (cs, sel, w) \<Rightarrow>
        (case first_index (\<lambda>x. fst x = engine_cmp c) (entries (engine w pe)) of
           None \<Rightarrow> Some (cs, sel, w)
         | Some i \<Rightarrow>
             let w1 = upd_engine pe (\<lambda>x. x \<lparr> entries := erase i (entries x) \<rparr>) w
             in (case child_at cs en of
                   Some (EntryNode a nd es) \<Rightarrow>
                     if i < length es then
                       (case child_at cs (es ! i) of
                          Some (EntryEdge s t x) \<Rightarrow>
                            (case StateMachine_removeChild k pe en (EntryEdge s t x) (cs, sel, w1) of
                               None \<Rightarrow> None
                             | Some P1 \<Rightarrow> StateMachine_removeChild k pe en (EntryEdge s t x) P1)
                        | _ \<Rightarrow> None)
                     else None
                 | _ \<Rightarrow> None)))"

text \<open>
  \<open>getParent()->removeChild(this)\<close>: \<open>StateMachine::removeChild\<close> while the parent
  is a live state machine (\<open>sm\<close>), \<open>Container::removeChild\<close> while the parent is
  inside \<open>~Container\<close>.
\<close>

definition removeChild :: "nat \<Rightarrow> bool \<Rightarrow> addr \<Rightarrow> addr \<Rightarrow> Component \<Rightarrow> pstate \<Rightarrow> pstate option" where
  "removeChild k sm pe en c P =
     (if sm then StateMachine_removeChild k pe en c P else Some (Container_removeChild pe c P))"

text \<open>\<open>Edge::~Edge\<close>, lines 319-323.\<close>

definition Edge_dtor :: "Component \<Rightarrow> pstate \<Rightarrow> pstate option" where
  "Edge_dtor c = (\<lambda>(cs, sel, w).
     case c of
       Edge s e f t x \<Rightarrow> do {
         fa \<leftarrow> f;
         ta \<leftarrow> t;
         cs1 \<leftarrow> update_node fa (\<lambda>nd. nd \<lparr> m_edges := remove1 s (m_edges nd) \<rparr>) cs;
         cs2 \<leftarrow> update_node ta (\<lambda>nd. nd \<lparr> m_in_edges := remove1 s (m_in_edges nd) \<rparr>) cs1;
         Some (cs2, sel, w)
       }
     | _ \<Rightarrow> None)"

text \<open>
  \<open>LUMIX_DELETE\<close> of an edge (an element of \<open>m_edges\<close> or \<open>m_in_edges\<close>):
  \<open>~Edge\<close>, then \<open>Component::~Component\<close>, lines 72-78, which calls the
  parent's \<open>removeChild\<close>.
\<close>

definition delete_Edge :: "nat \<Rightarrow> bool \<Rightarrow> addr \<Rightarrow> addr \<Rightarrow> Component \<Rightarrow> pstate \<Rightarrow> pstate option" where
  "delete_Edge k sm pe en c P =
     (case c of
        Edge s e f t x \<Rightarrow> Option.bind (Edge_dtor c P) (removeChild k sm pe en c)
      | _ \<Rightarrow> None)"

text \<open>
  The edge the next round of the loops of \<open>Node::~Node\<close> deletes, for the node at
  address \<open>s\<close>: the back of \<open>m_edges\<close> while that list is not empty, then the back
  of \<open>m_in_edges\<close>; \<open>Some None\<close> when both are empty, \<open>None\<close> when \<open>s\<close> is not a
  live node.
\<close>

definition back_edge :: "Component list \<Rightarrow> addr \<Rightarrow> (addr option) option" where
  "back_edge cs s =
     (case child_at cs s of
        None \<Rightarrow> None
      | Some c \<Rightarrow>
          (case node_of c of
             None \<Rightarrow> None
           | Some nd \<Rightarrow>
               Some (if m_edges nd \<noteq> [] then Some (last (m_edges nd))
                     else if m_in_edges nd \<noteq> [] then Some (last (m_in_edges nd))
                     else None)))"

text \<open>
  \<open>Node::~Node\<close>, lines 91-101, for the node at address \<open>s\<close>.  The first argument
  bounds the number of rounds (and of nested \<open>removeChild\<close> calls); \<open>None\<close> is also a
  dangling edge pointer.
\<close>

fun Node_dtor :: "nat \<Rightarrow> bool \<Rightarrow> addr \<Rightarrow> addr \<Rightarrow> addr \<Rightarrow> pstate \<Rightarrow> pstate option" where
  "Node_dtor 0 sm pe en s P = None"
| "Node_dtor (Suc k) sm pe en s P =
     (case back_edge (fst P) s of
        None \<Rightarrow> None
      | Some None \<Rightarrow> Some P
      | Some (Some a) \<Rightarrow>
          (case child_at (fst P) a of
             None \<Rightarrow> None
           | Some ed \<Rightarrow> Option.bind (delete_Edge k sm pe en ed P) (Node_dtor k sm pe en s)))"

text \<open>
  \<open>LUMIX_DELETE\<close> of a child \<open>c\<close> of the container with engine component \<open>pe\<close> and
  entry node \<open>en\<close>: the destructors run from the most derived class to
  \<open>Component::~Component\<close>, which calls the parent's \<open>removeChild\<close>.  A state
  machine first runs \<open>Container::~Container\<close>, lines 268-274, on its own children
  (\<open>Container_dtor\<close>: the back of \<open>m_editor_cmps\<close> is deleted until the list is
  empty; the children see a parent inside its destructor).  The first argument
  bounds the number of nested calls and loop rounds.
\<close>

fun destroy :: "nat \<Rightarrow> bool \<Rightarrow> addr \<Rightarrow> addr \<Rightarrow> Component \<Rightarrow> pstate \<Rightarrow> pstate option"
  and Container_dtor :: "nat \<Rightarrow> addr \<Rightarrow> addr \<Rightarrow> pstate \<Rightarrow> pstate option"
where
  "destroy 0 sm pe en c P = None"
| "destroy (Suc k) sm pe en c P =
     (case c of
        Edge s e f t x \<Rightarrow> delete_Edge k sm pe en c P
      | EntryEdge s t x \<Rightarrow>
          Option.bind (removeChild k sm pe en c P) (removeChild k sm pe en c)
      | EntryNode s nd es \<Rightarrow>
          Option.bind (Node_dtor k sm pe en s P) (removeChild k sm pe en c)
      | AnimationNode s e nd r \<Rightarrow>
          Option.bind (Node_dtor k sm pe en s P) (removeChild k sm pe en c)
      | StateMachine s e nd ccs csel cen \<Rightarrow>
          Option.bind (Container_dtor k e cen (ccs, csel, snd (snd P)))
            (\<lambda>Q. Option.bind (Node_dtor k sm pe en s (fst P, fst (snd P), snd (snd Q)))
                    (removeChild k sm pe en c)))"
| "Container_dtor 0 pe en P = None"
| "Container_dtor (Suc k) pe en P =
     (if fst P = [] then Some P
      else Option.bind (destroy k False pe en (last (fst P)) P) (Container_dtor k pe en))"

text \<open>
  The "Remove" item of the context menu in \<open>StateMachine::drawInside\<close>, lines
  878-886, for the child at address \<open>ctx\<close> (\<open>m_context_cmp\<close>).  The item is not
  offered for the entry node.
\<close>

definition removeComponent :: "nat \<Rightarrow> addr \<Rightarrow> addr \<Rightarrow> addr \<Rightarrow> pstate \<Rightarrow> pstate option" where
  "removeComponent k pe en ctx = (\<lambda>(cs, sel, w).
     if ctx = en then None
     else (case child_at cs ctx of
             None \<Rightarrow> None
           | Some c \<Rightarrow>
               (case destroy k True pe en c (cs, sel, w) of
                  None \<Rightarrow> None
                | Some (cs1, sel1, w1) \<Rightarrow>
                    Some (cs1, (if sel1 = Some ctx then None else sel1), w1))))"

subsection \<open>Operations on a state machine of the tree\<close>

text \<open>
  A member function of \<open>StateMachine\<close>, given as a function of the engine
  component, the entry node and the state, applied to the component \<open>c\<close>.
\<close>

definition on_StateMachine ::
  "(addr \<Rightarrow> addr \<Rightarrow> pstate \<Rightarrow> pstate option) \<Rightarrow> Component \<Rightarrow> World \<Rightarrow> (Component \<times> World) option" where
  "on_StateMachine g c w =
     (case c of
        StateMachine s e nd cs sel en \<Rightarrow>
          map_option (\<lambda>(cs1, sel1, w1). (StateMachine s e nd cs1 sel1 en, w1)) (g e en (cs, sel, w))
      | _ \<Rightarrow> None)"

text \<open>
  The editor shows one container at a time ("Show Children",
  \<open>StateMachine::onGUI\<close>, lines 612-619) and calls its member functions: \<open>at_cmp a g\<close>
  applies \<open>g\<close> to the component at address \<open>a\<close> of the tree.
\<close>

fun at_cmp :: "addr \<Rightarrow> (Component \<Rightarrow> World \<Rightarrow> (Component \<times> World) option) \<Rightarrow> Component \<Rightarrow> World \<Rightarrow> (Component \<times> World) option"
  and at_cmps :: "addr \<Rightarrow> (Component \<Rightarrow> World \<Rightarrow> (Component \<times> World) option) \<Rightarrow> Component list \<Rightarrow> World \<Rightarrow> (Component list \<times> World) option"
where
  "at_cmp a g (AnimationNode s e nd r) w = (if s = a then g (AnimationNode s e nd r) w else None)"
| "at_cmp a g (EntryNode s nd es) w = (if s = a then g (EntryNode s nd es) w else None)"
| "at_cmp a g (Edge s e f t x) w = (if s = a then g (Edge s e f t x) w else None)"
| "at_cmp a g (EntryEdge s t x) w = (if s = a then g (EntryEdge s t x) w else None)"
| "at_cmp a g (StateMachine s e nd cs sel en) w =
     (if s = a then g (StateMachine s e nd cs sel en) w
      else map_option (\<lambda>(cs1, w1). (StateMachine s e nd cs1 sel en, w1)) (at_cmps a g cs w))"
| "at_cmps a g [] w = None"
| "at_cmps a g (c # cs) w =
     (case at_cmp a g c w of
        Some (c1, w1) \<Rightarrow> Some (c1 # cs, w1)
      | None \<Rightarrow> map_option (\<lambda>(cs1, w1). (c # cs1, w1)) (at_cmps a g cs w))"

subsection \<open>Compilation\<close>

text \<open>
  Modelled from the spec: \<open>Anim::Condition::compile(expression, decl)\<close> (not among
  the sources).  The condition compiler \<open>cc\<close> is a parameter: it yields the compiled
  condition, or \<open>None\<close> for a compile error, in which case the spec leaves the
  previous compiled condition in place.
\<close>

definition Condition_compile ::
  "(string \<Rightarrow> InputDecl \<Rightarrow> Condition option) \<Rightarrow> string \<Rightarrow> InputDecl \<Rightarrow> Condition \<Rightarrow> Condition" where
  "Condition_compile cc x d prev = (case cc x d of Some c \<Rightarrow> c | None \<Rightarrow> prev)"

text \<open>
  \<open>AnimationNode::compile\<close>, lines 419-431, for the engine node \<open>e\<close> and the editor
  field \<open>root_rotation_input\<close>.  \<open>decl.inputs[i]\<close> is read without a comparison with
  \<open>inputs_count\<close>; beyond the array the read is \<open>None\<close>.
\<close>

definition AnimationNode_compile :: "addr \<Rightarrow> int \<Rightarrow> World \<Rightarrow> World option" where
  "AnimationNode_compile e root_rotation_input w =
     (let decl = input_decl w
      in if root_rotation_input \<ge> 0
         then (if nat root_rotation_input < length (inputs decl)
               then Some (upd_engine e (\<lambda>y. y \<lparr> root_rotation_input_offset :=
                             offset_i (inputs decl ! nat root_rotation_input) \<rparr>) w)
               else None)
         else Some (upd_engine e (\<lambda>y. y \<lparr> root_rotation_input_offset := -1 \<rparr>) w))"

text \<open>\<open>Edge::compile\<close>, lines 341-345.\<close>

definition Edge_compile ::
  "(string \<Rightarrow> InputDecl \<Rightarrow> Condition option) \<Rightarrow> addr \<Rightarrow> string \<Rightarrow> World \<Rightarrow> World" where
  "Edge_compile cc e x w =
     upd_engine e (\<lambda>y. y \<lparr> condition := Condition_compile cc x (input_decl w) (condition y) \<rparr>) w"

text \<open>
  The loop of \<open>StateMachine::compile\<close>, lines 625-631: entry \<open>i\<close> of the engine state
  machine \<open>e\<close> is compiled from the expression of the \<open>i\<close>-th editor entry edge.
\<close>

fun compile_entries ::
  "(string \<Rightarrow> InputDecl \<Rightarrow> Condition option) \<Rightarrow> addr \<Rightarrow> Component list \<Rightarrow> addr list \<Rightarrow> nat \<Rightarrow> World \<Rightarrow> World option" where
  "compile_entries cc e cs [] i w = Some w"
| "compile_entries cc e cs (a # as) i w =
     (case child_at cs a of
        Some (EntryEdge s t x) \<Rightarrow>
          if i < length (entries (engine w e))
          then compile_entries cc e cs as (Suc i)
                 (upd_engine e (\<lambda>y. y \<lparr> entries := (entries y)
                    [i := (fst (entries y ! i),
                           Condition_compile cc x (input_decl w) (snd (entries y ! i)))] \<rparr>) w)
          else None
      | _ \<Rightarrow> None)"

text \<open>
  The virtual \<open>compile\<close>: \<open>Edge::compile\<close>, \<open>AnimationNode::compile\<close>,
  \<open>EntryEdge::compile\<close> (lines 536-539, empty), \<open>Node::compile\<close> for the entry node
  (empty), and \<open>StateMachine::compile\<close>, lines 622-632, which runs
  \<open>Container::compile\<close>, lines 669-676, over \<open>m_editor_cmps\<close> and then the loop over
  the entry node's \<open>entries\<close>.
\<close>

fun compile :: "(string \<Rightarrow> InputDecl \<Rightarrow> Condition option) \<Rightarrow> Component \<Rightarrow> World \<Rightarrow> World option"
  and compile_list :: "(string \<Rightarrow> InputDecl \<Rightarrow> Condition option) \<Rightarrow> Component list \<Rightarrow> World \<Rightarrow> World option"
where
  "compile cc (Edge s e f t x) w = Some (Edge_compile cc e x w)"
| "compile cc (AnimationNode s e nd r) w = AnimationNode_compile e r w"
| "compile cc (EntryEdge s t x) w = Some w"
| "compile cc (EntryNode s nd es) w = Some w"
| "compile cc (StateMachine s e nd cs sel en) w =
     (case compile_list cc cs w of
        None \<Rightarrow> None
      | Some w1 \<Rightarrow>
          (case child_at cs en of
             Some (EntryNode a nd1 es) \<Rightarrow> compile_entries cc e cs es 0 w1
           | _ \<Rightarrow> None))"
| "compile_list cc [] w = Some w"
| "compile_list cc (c # cs) w =
     (case compile cc c w of None \<Rightarrow> None | Some w1 \<Rightarrow> compile_list cc cs w1)"


subsection \<open>Serialization\<close>

text \<open>
  Modelled from the spec: \<open>OutputBlob\<close> and \<open>InputBlob\<close> (\<open>engine/blob.h\<close>) and
  \<open>Anim::ControllerResource::serialize\<close> and \<open>deserialize\<close>, none of them among
  the sources.  A blob is the sequence of the values written to it, and a read takes
  the next value.  \<open>state_machine_editor.cpp\<close> discards the result of every
  \<open>blob.read\<close>, so a read that finds no value of its kind (a truncated or corrupt
  stream) can only deliver some value: the model delivers the default (zero, the
  empty string) and consumes nothing.  The engine resource writes its graph (the
  engine objects, the input declaration, its root and the allocator's mark) as one
  value and restores it from that value; its \<open>deserialize\<close> fails, returning
  false, when the stream does not start with such a value.
\<close>

datatype token =
    TInt int
  | TVec2 ImVec2
  | TStr string
  | TEngine "addr \<Rightarrow> AnimComponent" InputDecl addr addr

definition read_int :: "token list \<Rightarrow> int \<times> token list" where
  "read_int b = (case b of TInt i # r \<Rightarrow> (i, r) | _ \<Rightarrow> (0, b))"

definition read_vec2 :: "token list \<Rightarrow> ImVec2 \<times> token list" where
  "read_vec2 b = (case b of TVec2 v # r \<Rightarrow> (v, r) | _ \<Rightarrow> ((0, 0), b))"

definition read_str :: "token list \<Rightarrow> string \<times> token list" where
  "read_str b = (case b of TStr x # r \<Rightarrow> (x, r) | _ \<Rightarrow> ([], b))"

text \<open>
  \<open>blob.readString(tmp, lengthOf(tmp))\<close> into a buffer of \<open>n\<close> characters: a string
  that does not fit the buffer with its terminator is \<open>None\<close>.
\<close>

definition readString :: "nat \<Rightarrow> token list \<Rightarrow> (string \<times> token list) option" where
  "readString n b =
     (case b of
        TStr x # r \<Rightarrow> if length x < n then Some (x, r) else None
      | _ \<Rightarrow> Some ([], b))"

text \<open>\<open>Node::serialize\<close>, lines 210-215, and \<open>Node::deserialize\<close>, lines 218-223.\<close>

definition Node_serialize :: "Node \<Rightarrow> token list" where
  "Node_serialize nd = [TVec2 (pos nd), TVec2 (size_n nd), TStr (m_name nd)]"

definition Node_deserialize :: "Node \<Rightarrow> token list \<Rightarrow> Node \<times> token list" where
  "Node_deserialize nd b =
     (let (p, b1) = read_vec2 b;
          (sz, b2) = read_vec2 b1;
          (nm, b3) = read_str b2
      in (nd \<lparr> pos := p, size_n := sz, m_name := nm \<rparr>, b3))"

text \<open>
  \<open>p->engine_cmp->uid\<close> for a pointer \<open>p\<close> to a child of the container with
  children \<open>cs\<close>; \<open>None\<close> for a null or dangling pointer or a null \<open>engine_cmp\<close>.
\<close>

definition uid_at :: "World \<Rightarrow> Component list \<Rightarrow> addr option \<Rightarrow> int option" where
  "uid_at w cs p = do {
     a \<leftarrow> p;
     c \<leftarrow> child_at cs a;
     e \<leftarrow> engine_cmp c;
     Some (uid (engine w e))
   }"

text \<open>
  The loop of \<open>StateMachine::serialize\<close>, lines 726-731, over the entry node's
  \<open>entries\<close>.
\<close>

fun serialize_entries :: "World \<Rightarrow> Component list \<Rightarrow> addr list \<Rightarrow> token list option" where
  "serialize_entries w cs [] = Some []"
| "serialize_entries w cs (a # as) =
     (case child_at cs a of
        Some (EntryEdge s t x) \<Rightarrow>
          (case uid_at w cs t of
             None \<Rightarrow> None
           | Some u \<Rightarrow> map_option (\<lambda>r. TInt u # TStr x # r) (serialize_entries w cs as))
      | _ \<Rightarrow> None)"

text \<open>
  The virtual \<open>serialize\<close> of a component whose parent has the children \<open>sibs\<close>:
  \<open>Node::serialize\<close>, \<open>Edge::serialize\<close> (lines 379-384), \<open>EntryEdge::serialize\<close>
  (line 519, empty) and \<open>StateMachine::serialize\<close>, lines 722-732, with
  \<open>Container::serialize\<close>, lines 679-688 (\<open>serialize_children\<close> is its loop).
\<close>

fun serialize :: "World \<Rightarrow> Component list \<Rightarrow> Component \<Rightarrow> token list option"
  and serialize_children :: "World \<Rightarrow> Component list \<Rightarrow> Component list \<Rightarrow> token list option"
where
  "serialize w sibs (AnimationNode s e nd r) = Some (Node_serialize nd)"
| "serialize w sibs (EntryNode s nd es) = Some (Node_serialize nd)"
| "serialize w sibs (EntryEdge s t x) = Some []"
| "serialize w sibs (Edge s e f t x) =
     (case uid_at w sibs f of
        None \<Rightarrow> None
      | Some fu \<Rightarrow>
          (case uid_at w sibs t of
             None \<Rightarrow> None
           | Some tu \<Rightarrow> Some [TInt fu, TInt tu, TStr x]))"
| "serialize w sibs (StateMachine s e nd cs sel en) =
     (case serialize_children w cs cs of
        None \<Rightarrow> None
      | Some b1 \<Rightarrow>
          (case child_at cs en of
             Some (EntryNode a nd1 es) \<Rightarrow>
               (case serialize_entries w cs es of
                  None \<Rightarrow> None
                | Some b2 \<Rightarrow>
                    Some (Node_serialize nd @ [TInt (int (length cs))] @ b1 @
                          Node_serialize nd1 @ [TInt (int (length es))] @ b2))
           | _ \<Rightarrow> None))"
| "serialize_children w sibs [] = Some []"
| "serialize_children w sibs (c # cs) =
     (case (case engine_cmp c of
              None \<Rightarrow> Some [TInt (- 1)]
            | Some e \<Rightarrow> map_option ((#) (TInt (uid (engine w e)))) (serialize w sibs c)) of
        None \<Rightarrow> None
      | Some b \<Rightarrow> map_option ((@) b) (serialize_children w sibs cs))"

text \<open>
  \<open>ControllerResource::serialize\<close>, lines 911-924: the root is compiled, the engine
  resource writes itself, then \<open>m_last_uid\<close>, the root and the animation slots
  follow.  The result is the controller after the call and the blob.
\<close>

definition ControllerResource_serialize ::
  "(string \<Rightarrow> InputDecl \<Rightarrow> Condition option) \<Rightarrow> ControllerResource \<Rightarrow> (ControllerResource \<times> token list) option" where
  "ControllerResource_serialize cc c =
     (case compile cc (m_root c) (world c) of
        None \<Rightarrow> None
      | Some w \<Rightarrow>
          (case serialize w [] (m_root c) of
             None \<Rightarrow> None
           | Some b \<Rightarrow>
               Some (c \<lparr> world := w \<rparr>,
                     TEngine (engine w) (input_decl w) (root_e w) (next_addr w) #
                     TInt (m_last_uid w) # b @
                     TInt (int (length (m_animation_slots c))) # map TStr (m_animation_slots c))))"

subsection \<open>Deserialization\<close>

text \<open>
  The second loop of \<open>StateMachine::deserialize\<close>, lines 710-718, run \<open>n\<close> times on
  the state machine with entry node \<open>en\<close>: the target is looked up by UID (it may be
  null), the \<open>EntryEdge\<close> constructor pushes the new edge to the entry node's
  \<open>entries\<close>, and the edge is pushed to \<open>m_editor_cmps\<close> before its expression is
  read.
\<close>

fun deserialize_entries ::
  "nat \<Rightarrow> addr \<Rightarrow> Component list \<Rightarrow> World \<times> token list \<Rightarrow> (Component list \<times> World \<times> token list) option" where
  "deserialize_entries 0 en cs (w, b) = Some (cs, w, b)"
| "deserialize_entries (Suc n) en cs (w, b) =
     (let (u, b1) = read_int b;
          node = getChildByUID w cs u;
          (s, w1) = alloc w
      in case push_entry en s cs of
           None \<Rightarrow> None
         | Some cs1 \<Rightarrow>
             let (x, b2) = read_str b1
             in deserialize_entries n en (cs1 @ [EntryEdge s (map_option self node) x]) (w1, b2))"

text \<open>\<open>m_entry_node->deserialize(blob)\<close>: \<open>Node::deserialize\<close> on the entry node.\<close>

fun deserialize_entry_node :: "addr \<Rightarrow> Component list \<Rightarrow> token list \<Rightarrow> (Component list \<times> token list) option" where
  "deserialize_entry_node en [] b = None"
| "deserialize_entry_node en (c # cs) b =
     (if self c = en
      then (case c of
              EntryNode a nd es \<Rightarrow>
                (let (nd1, b1) = Node_deserialize nd b in Some (EntryNode a nd1 es # cs, b1))
            | _ \<Rightarrow> None)
      else map_option (\<lambda>(cs1, b1). (c # cs1, b1)) (deserialize_entry_node en cs b))"

text \<open>
  The virtual \<open>deserialize\<close> of a component newly created inside the container with
  children \<open>sibs\<close>: \<open>Node::deserialize\<close>, \<open>Edge::deserialize\<close> (lines 387-395),
  \<open>EntryEdge::deserialize\<close> (line 520, empty) and \<open>StateMachine::deserialize\<close>,
  lines 704-719.  \<open>Container_deserialize\<close> is the loop of
  \<open>Container::deserialize\<close>, lines 654-665, on the container with engine component
  \<open>pe\<close>: a child is created for the engine child with the UID read (a null result
  of the engine lookup is dereferenced by \<open>createComponent\<close>: \<open>None\<close>),
  deserialized, and pushed.  The first argument bounds the nesting of state machines.
\<close>

fun deserialize ::
    "nat \<Rightarrow> Component list \<Rightarrow> Component \<Rightarrow> World \<times> token list \<Rightarrow> (Component \<times> World \<times> token list) option"
  and Container_deserialize ::
    "nat \<Rightarrow> nat \<Rightarrow> addr \<Rightarrow> Component list \<Rightarrow> World \<times> token list \<Rightarrow> (Component list \<times> World \<times> token list) option"
where
  "deserialize k sibs (AnimationNode s e nd r) (w, b) =
     (let (nd1, b1) = Node_deserialize nd b in Some (AnimationNode s e nd1 r, w, b1))"
| "deserialize k sibs (EntryNode s nd es) (w, b) =
     (let (nd1, b1) = Node_deserialize nd b in Some (EntryNode s nd1 es, w, b1))"
| "deserialize k sibs (EntryEdge s t x) (w, b) = Some (EntryEdge s t x, w, b)"
| "deserialize k sibs (Edge s e f t x) (w, b) =
     (let (u1, b1) = read_int b;
          f1 = map_option self (getChildByUID w sibs u1);
          (u2, b2) = read_int b1;
          t1 = map_option self (getChildByUID w sibs u2);
          (x1, b3) = read_str b2
      in Some (Edge s e f1 t1 x1, w, b3))"
| "deserialize 0 sibs (StateMachine s e nd cs sel en) (w, b) = None"
| "deserialize (Suc k) sibs (StateMachine s e nd cs sel en) (w, b) =
     (let (nd1, b1) = Node_deserialize nd b;
          (n, b2) = read_int b1
      in case Container_deserialize k (nat n) e cs (w, b2) of
           None \<Rightarrow> None
         | Some (cs1, w1, b3) \<Rightarrow>
             (case deserialize_entry_node en cs1 b3 of
                None \<Rightarrow> None
              | Some (cs2, b4) \<Rightarrow>
                  let (cnt, b5) = read_int b4
                  in (case deserialize_entries (nat cnt) en cs2 (w1, b5) of
                        None \<Rightarrow> None
                      | Some (cs3, w2, b6) \<Rightarrow> Some (StateMachine s e nd1 cs3 sel en, w2, b6))))"
| "Container_deserialize k 0 pe cs (w, b) = Some (cs, w, b)"
| "Container_deserialize k (Suc n) pe cs (w, b) =
     (let (u, b1) = read_int b
      in if u \<ge> 0 then
           (case Anim_getChildByUID w pe u of
              None \<Rightarrow> None
            | Some ec \<Rightarrow>
                (case createComponent ec cs w of
                   None \<Rightarrow> None
                 | Some (c, cs1, w1) \<Rightarrow>
                     (case deserialize k cs1 c (w1, b1) of
                        None \<Rightarrow> None
                      | Some (c1, w2, b2) \<Rightarrow> Container_deserialize k n pe (cs1 @ [c1]) (w2, b2))))
         else Container_deserialize k n pe cs (w, b1))"

text \<open>The loop of \<open>ControllerResource::deserialize\<close>, lines 943-949.\<close>

fun read_slots :: "nat \<Rightarrow> token list \<Rightarrow> string list option" where
  "read_slots 0 b = Some []"
| "read_slots (Suc n) b =
     (case readString 64 b of
        None \<Rightarrow> None
      | Some (x, b1) \<Rightarrow> map_option ((#) x) (read_slots n b1))"

text \<open>
  The outcome of \<open>ControllerResource::deserialize\<close>: the function returns false,
  returns true with the controller it has built, or does not return (a null pointer
  is dereferenced or a buffer overrun).
\<close>

datatype load = Crashed | ReturnedFalse | ReturnedTrue ControllerResource

text \<open>
  \<open>ControllerResource::deserialize\<close>, lines 927-951.  The previous engine resource
  and root are deleted, so the outcome depends on the blob alone.  The nesting of
  state machines is bounded by the length of the blob.
\<close>

definition ControllerResource_deserialize :: "token list \<Rightarrow> load" where
  "ControllerResource_deserialize blob =
     (case blob of
        TEngine en d r n # b0 \<Rightarrow>
          (let (lu, b1) = read_int b0;
               w = \<lparr> engine = en, input_decl = d, root_e = r, m_last_uid = lu, next_addr = n \<rparr>
           in case createComponent r [] w of
                None \<Rightarrow> Crashed
              | Some (c, cs, w1) \<Rightarrow>
                  (case deserialize (length blob) [] c (w1, b1) of
                     None \<Rightarrow> Crashed
                   | Some (c1, w2, b2) \<Rightarrow>
                       let (cnt, b3) = read_int b2
                       in (case read_slots (nat cnt) b3 of
                             None \<Rightarrow> Crashed
                           | Some sl \<Rightarrow>
                               ReturnedTrue \<lparr> m_root = c1, world = w2, m_animation_slots = sl \<rparr>)))
      | _ \<Rightarrow> ReturnedFalse)"

subsection \<open>A new controller\<close>

text \<open>
  The constructor of \<open>ControllerResource\<close>, lines 892-901: an engine state machine
  becomes the root of the engine resource and is wrapped by the editor's root.
  Modelled from the spec: the initial value 0 of \<open>m_last_uid\<close> and the empty input
  declaration (\<open>state_machine_editor.h\<close> and the engine resource are not among the
  sources).
\<close>

definition new_ControllerResource :: ControllerResource where
  "new_ControllerResource =
     (let w0 = \<lparr> engine = (\<lambda>_. new_AnimComponent EDGE),
                  input_decl = \<lparr> inputs = [], inputs_count = 0 \<rparr>,
                  root_e = 0, m_last_uid = 0, next_addr = 0 \<rparr>;
          (e, w1) = Anim_createComponent STATE_MACHINE w0;
          (s, w2) = alloc (w1 \<lparr> root_e := e \<rparr>);
          (r, w3) = StateMachine_ctor s e w2
      in \<lparr> m_root = r, world = w3, m_animation_slots = [] \<rparr>)"


subsection \<open>Operations on the controller\<close>

text \<open>
  A member function of the state machine at address \<open>a\<close> of the controller's tree,
  called by the editor.
\<close>

definition op_at ::
  "addr \<Rightarrow> (addr \<Rightarrow> addr \<Rightarrow> pstate \<Rightarrow> pstate option) \<Rightarrow> ControllerResource \<Rightarrow> ControllerResource option" where
  "op_at a g c =
     map_option (\<lambda>(r, w). c \<lparr> m_root := r, world := w \<rparr>)
       (at_cmp a (on_StateMachine g) (m_root c) (world c))"

subsection \<open>Edits and the reachable controllers\<close>







text \<open>
  The engine components wrapped by the components of a tree (a component first,
  then those of its children), and their UIDs: the UIDs of the live components.
\<close>

fun alltwins :: "Component \<Rightarrow> addr list"
  and alltwins_list :: "Component list \<Rightarrow> addr list"
where
  "alltwins (AnimationNode s e nd r) = [e]"
| "alltwins (StateMachine s e nd cs sel en) = e # alltwins_list cs"
| "alltwins (EntryNode s nd es) = []"
| "alltwins (Edge s e f t x) = [e]"
| "alltwins (EntryEdge s t x) = []"
| "alltwins_list [] = []"
| "alltwins_list (c # cs) = alltwins c @ alltwins_list cs"


section \<open>Notions used in the proofs\<close>

text \<open>
  \<open>compile\<close> writes three kinds of cells of the engine objects: an edge's
  \<open>condition\<close>, a node's \<open>root_rotation_input_offset\<close> and the condition of an
  entry.  The \<open>shape\<close> of an engine object is everything else.  Two runs of one
  step that start in worlds of the same shape are related by \<open>step_rel\<close> when each
  run keeps the shape and every cell is either written with the same value in both
  runs or left alone in both; a step is \<open>uniform\<close> when all its runs are so
  related and fail together.
\<close>

definition shape :: "AnimComponent \<Rightarrow> CType \<times> int \<times> addr list \<times> addr option list \<times> addr option \<times> addr option" where
  "shape x = (type_c x, uid x, children x, map fst (entries x), from_e x, to_e x)"

definition same_shape :: "World \<Rightarrow> World \<Rightarrow> bool" where
  "same_shape w1 w2 =
     (input_decl w1 = input_decl w2 \<and> root_e w1 = root_e w2 \<and> m_last_uid w1 = m_last_uid w2 \<and>
      next_addr w1 = next_addr w2 \<and> (\<forall>a. shape (engine w1 a) = shape (engine w2 a)))"

definition cell_rel :: "'v \<Rightarrow> 'v \<Rightarrow> 'v \<Rightarrow> 'v \<Rightarrow> bool" where
  "cell_rel v1 v1' v2 v2' = (v1' = v2' \<or> (v1' = v1 \<and> v2' = v2))"

definition obj_rel :: "AnimComponent \<Rightarrow> AnimComponent \<Rightarrow> AnimComponent \<Rightarrow> AnimComponent \<Rightarrow> bool" where
  "obj_rel x1 x1' x2 x2' =
     (cell_rel (condition x1) (condition x1') (condition x2) (condition x2') \<and>
      cell_rel (root_rotation_input_offset x1) (root_rotation_input_offset x1')
               (root_rotation_input_offset x2) (root_rotation_input_offset x2') \<and>
      (\<forall>i. cell_rel (snd (entries x1 ! i)) (snd (entries x1' ! i))
                    (snd (entries x2 ! i)) (snd (entries x2' ! i))))"

definition step_rel :: "World \<Rightarrow> World \<Rightarrow> World \<Rightarrow> World \<Rightarrow> bool" where
  "step_rel w1 w1' w2 w2' =
     (same_shape w1 w1' \<and> same_shape w2 w2' \<and>
      (\<forall>a. obj_rel (engine w1 a) (engine w1' a) (engine w2 a) (engine w2' a)))"

definition uniform :: "(World \<Rightarrow> World option) \<Rightarrow> bool" where
  "uniform f =
     (\<forall>w1 w2. same_shape w1 w2 \<longrightarrow>
        (f w1 = None \<longleftrightarrow> f w2 = None) \<and>
        (\<forall>v1 v2. f w1 = Some v1 \<longrightarrow> f w2 = Some v2 \<longrightarrow> step_rel w1 v1 w2 v2))"


text \<open>
  The engine types agree with the kinds of the components of a tree, and every
  component below the top has a UID that is not negative.
\<close>

fun kinds_ok :: "World \<Rightarrow> Component \<Rightarrow> bool"
  and kinds_ok_list :: "World \<Rightarrow> Component list \<Rightarrow> bool"
where
  "kinds_ok w (AnimationNode s e nd r) = (type_c (engine w e) = SIMPLE_ANIMATION)"
| "kinds_ok w (StateMachine s e nd cs sel en) =
     (type_c (engine w e) = STATE_MACHINE \<and> kinds_ok_list w cs \<and>
      list_all (\<lambda>a. 0 \<le> uid (engine w a)) (alltwins_list cs))"
| "kinds_ok w (EntryNode s nd es) = True"
| "kinds_ok w (Edge s e f t x) = (type_c (engine w e) = EDGE)"
| "kinds_ok w (EntryEdge s t x) = True"
| "kinds_ok_list w [] = True"
| "kinds_ok_list w (c # cs) = (kinds_ok w c \<and> kinds_ok_list w cs)"

text \<open>
  A tree reduced to the engine components it wraps: every other field is cleared.
\<close>

fun strip :: "Component \<Rightarrow> Component" where
  "strip (AnimationNode s e nd r) = AnimationNode 0 e (new_Node []) 0"
| "strip (StateMachine s e nd cs sel en) = StateMachine 0 e (new_Node []) (map strip cs) None 0"
| "strip (EntryNode s nd es) = EntryNode 0 (new_Node []) []"
| "strip (Edge s e f t x) = Edge 0 e None None []"
| "strip (EntryEdge s t x) = EntryEdge 0 None []"














section \<open>Example inputs\<close>

text \<open>A track with two events of eight payload bytes each.\<close>

definition track_two_events :: AnimNode where
  "track_two_events =
     \<lparr> events = [0,0,0,0,0,8,0,0, 0,0,0,0,0,8,8,0, 1,2,3,4,5,6,7,8, 11,12,13,14,15,16,17,18],
       events_count = 2 \<rparr>"

text \<open>
  A declaration whose only input has been removed: no slot is in use, slot 0 still
  holds the removed float input.
\<close>

definition stale_decl :: InputDecl where
  "stale_decl =
     \<lparr> inputs = [\<lparr> name_i = ''speed'', type_i = FLOAT, offset_i = 0 \<rparr>], inputs_count = 0 \<rparr>"

text \<open>
  Graphs built from a new controller: the root is at address 1, its entry node at
  address 2, and the first state created gets address 4 (engine component 3).
\<close>

definition graph_one_node :: "ControllerResource option" where
  "graph_one_node =
     op_at 1 (\<lambda>pe en. createState pe SIMPLE_ANIMATION (0, 0)) new_ControllerResource"

definition graph_entry_edge :: "ControllerResource option" where
  "graph_entry_edge = Option.bind graph_one_node (op_at 1 (\<lambda>pe en. releaseNewEdge pe en 2 4))"

definition graph_two_entry_edges :: "ControllerResource option" where
  "graph_two_entry_edges =
     Option.bind graph_entry_edge (op_at 1 (\<lambda>pe en. releaseNewEdge pe en 2 4))"

text \<open>
  An engine graph as the engine resource restores it: the root state machine at
  address 0 with two states (addresses 3 and 5, UIDs 1 and 2) and an edge from the
  first to the second (address 7, UID 3).  \<open>corrupt_blob\<close> is the serialized form
  of the controller with this graph, except that the editor's part names the UID 99
  of no component as the edge's first endpoint.
\<close>

definition engine_two_states :: "addr \<Rightarrow> AnimComponent" where
  "engine_two_states a =
     (if a = 0 then (new_AnimComponent STATE_MACHINE) \<lparr> children := [3, 5, 7] \<rparr>
      else if a = 3 then (new_AnimComponent SIMPLE_ANIMATION) \<lparr> uid := 1 \<rparr>
      else if a = 5 then (new_AnimComponent SIMPLE_ANIMATION) \<lparr> uid := 2 \<rparr>
      else if a = 7 then (new_AnimComponent EDGE) \<lparr> uid := 3, from_e := Some 3, to_e := Some 5 \<rparr>
      else new_AnimComponent EDGE)"

definition corrupt_blob :: "token list" where
  "corrupt_blob =
     [TEngine engine_two_states \<lparr> inputs = [], inputs_count = 0 \<rparr> 0 9,
      TInt 3, TVec2 (0, 0), TVec2 (0, 0), TStr [], TInt 4,
      TInt (- 1),
      TInt 1, TVec2 (0, 0), TVec2 (100, 30), TStr [],
      TInt 2, TVec2 (10, 0), TVec2 (100, 30), TStr [],
      TInt 3, TInt 99, TInt 2, TStr [],
      TVec2 (0, 0), TVec2 (0, 0), TStr ''Entry'', TInt 0,
      TInt 0]"

text \<open>A condition compiler that rejects every expression.\<close>

definition no_compiler :: "string \<Rightarrow> InputDecl \<Rightarrow> Condition option" where
  "no_compiler x d = None"






section \<open>Properties\<close>

subsection \<open>Event track\<close>

text \<open>
  C2.  \<open>removeEvent\<close> should shift the payload offsets of the later headers down by
  the removed size, and adding and then removing an event should restore the track's
  byte length.  The code does neither.  On the track with two events, removing event
  0 leaves the array 32 bytes long; the remaining header keeps offset 8 and so
  addresses the bytes \<open>1..8\<close> of the removed event, while its own payload
  \<open>11..18\<close> now sits at offset 0.  Adding an event to the empty track and removing
  it leaves 16 bytes.
\<close>

theorem removeEvent_keeps_offset_and_length:
  "(case removeEvent track_two_events 0 of
      None \<Rightarrow> False
    | Some n \<Rightarrow>
        length (events n) = 32 \<and> events_count n = 1 \<and>
        headers n = [Some \<lparr> time_h = [0,0,0,0], type_h = 0, size_h = 8, offset_h = 8 \<rparr>] \<and>
        payload_of n \<lparr> time_h = [0,0,0,0], type_h = 0, size_h = 8, offset_h = 8 \<rparr>
          = [1,2,3,4,5,6,7,8] \<and>
        payload_of track_two_events \<lparr> time_h = [0,0,0,0], type_h = 0, size_h = 8, offset_h = 8 \<rparr>
          = [11,12,13,14,15,16,17,18] \<and>
        payload_of n \<lparr> time_h = [0,0,0,0], type_h = 0, size_h = 8, offset_h = 0 \<rparr>
          = [11,12,13,14,15,16,17,18])
   \<and> (case addEvent empty_track of
         None \<Rightarrow> False
       | Some n1 \<Rightarrow>
           (case removeEvent n1 0 of
              None \<Rightarrow> False
            | Some n2 \<Rightarrow> length (events n2) = 16 \<and> length (events empty_track) = 0))"
  by code_simp

text \<open>
  C3.  The sum of the declared event sizes plus the header bytes should equal the
  track's byte length after any sequence of additions and removals.  After one
  addition and one removal on the empty track no event is left, so the declared
  length is 0, but the array still has 16 bytes.
\<close>

theorem add_remove_breaks_declared_length:
  "(case addEvent empty_track of
      None \<Rightarrow> False
    | Some n1 \<Rightarrow>
        declared_length n1 = length (events n1) \<and>
        (case removeEvent n1 0 of
           None \<Rightarrow> False
         | Some n2 \<Rightarrow>
             events_count n2 = 0 \<and> declared_length n2 = 0 \<and> length (events n2) = 16))"
  by code_simp

subsection \<open>Compiling a leaf node\<close>

text \<open>
  C8.  A root-rotation input that is no longer present in the declaration should
  only disable the feature (offset \<open>-1\<close>).  With \<open>root_rotation_input = 0\<close> and a
  declaration that has no input in use, \<open>AnimationNode::compile\<close> copies the offset
  of the stale slot 0.
\<close>

theorem AnimationNode_compile_reads_removed_input:
  "inputs_count stale_decl = 0 \<and>
   map_option (\<lambda>w. root_rotation_input_offset (engine w 3))
     (compile cc (AnimationNode 4 3 (new_Node []) 0)
        ((world new_ControllerResource) \<lparr> input_decl := stale_decl \<rparr>)) = Some 0"
  by (simp add: stale_decl_def AnimationNode_compile_def upd_engine_def)

subsection \<open>Removing a node\<close>

text \<open>
  C4.  Removing a node should remove every entry edge that targets it.  With two
  entry edges to the node at address 4 (engine component 3), removing the node
  deletes the first entry edge only: the entry edge at address 6 is still a child of
  the root and still targets address 4, which is no longer a child, and the engine
  state machine keeps an entry for the engine component 3.
\<close>

theorem removed_node_keeps_second_entry_edge:
  "(case Option.bind graph_two_entry_edges (op_at 1 (\<lambda>pe en. removeComponent 10 pe en 4)) of
      None \<Rightarrow> False
    | Some c \<Rightarrow>
        (case m_root c of
           StateMachine s e nd cs sel en \<Rightarrow>
             child_at cs 4 = None \<and>
             child_at cs 6 = Some (EntryEdge 6 (Some 4) []) \<and>
             entries (engine (world c) e) = [(Some 3, [])]
         | _ \<Rightarrow> False))"
  by code_simp

text \<open>
  C10.  The engine's entries and the entry node's \<open>entries\<close> should stay aligned.
  With one entry edge (address 5) to the node at address 4, removing the node erases
  the engine entry and deletes the entry edge, but the entry node's \<open>entries\<close> still
  holds the address 5 of the deleted edge: the editor list has one element, the
  engine list none, and \<open>compile\<close> then follows the dangling pointer.
\<close>

theorem removeChild_leaves_entries_misaligned:
  "(case Option.bind graph_entry_edge (op_at 1 (\<lambda>pe en. removeComponent 10 pe en 4)) of
      None \<Rightarrow> False
    | Some c \<Rightarrow>
        (case m_root c of
           StateMachine s e nd cs sel en \<Rightarrow>
             child_at cs en = Some (EntryNode 2 (new_Node ''Entry'') [5]) \<and>
             child_at cs 5 = None \<and>
             entries (engine (world c) e) = [] \<and>
             compile cc (m_root c) (world c) = None
         | _ \<Rightarrow> False))"
  by code_simp


subsection \<open>Compilation is idempotent\<close>

lemma uniformD_None: "uniform f \<Longrightarrow> same_shape w1 w2 \<Longrightarrow> f w1 = None \<Longrightarrow> f w2 = None"
  unfolding uniform_def by blast

lemma uniformD_Some:
  assumes "uniform f" "same_shape w1 w2" "f w1 = Some v1"
  shows "\<exists>v2. f w2 = Some v2 \<and> step_rel w1 v1 w2 v2"
proof -
  from assms(1,2) have a: "(f w1 = None) = (f w2 = None)"
    and b: "\<And>v1 v2. f w1 = Some v1 \<Longrightarrow> f w2 = Some v2 \<Longrightarrow> step_rel w1 v1 w2 v2"
    unfolding uniform_def by simp_all
  from a assms(3) obtain v2 where "f w2 = Some v2" by (cases "f w2") simp_all
  with b [OF assms(3)] show ?thesis by simp
qed

lemma same_shape_refl: "same_shape w w"
  by (simp add: same_shape_def)

lemma same_shape_sym: "same_shape w1 w2 \<Longrightarrow> same_shape w2 w1"
  by (simp add: same_shape_def)

lemma same_shape_trans: "same_shape w1 w2 \<Longrightarrow> same_shape w2 w3 \<Longrightarrow> same_shape w1 w3"
  by (simp add: same_shape_def)

lemma cell_rel_trans:
  "cell_rel a a' b b' \<Longrightarrow> cell_rel a' a'' b' b'' \<Longrightarrow> cell_rel a a'' b b''"
  by (auto simp: cell_rel_def)

lemma cell_rel_same: "cell_rel a a b b"
  by (simp add: cell_rel_def)

lemma obj_rel_trans:
  assumes "obj_rel a a' b b'" "obj_rel a' a'' b' b''"
  shows "obj_rel a a'' b b''"
  unfolding obj_rel_def
proof (intro conjI allI)
  show "cell_rel (condition a) (condition a'') (condition b) (condition b'')"
    using assms unfolding obj_rel_def by (elim conjE) (rule cell_rel_trans)
  show "cell_rel (root_rotation_input_offset a) (root_rotation_input_offset a'')
          (root_rotation_input_offset b) (root_rotation_input_offset b'')"
    using assms unfolding obj_rel_def by (elim conjE) (rule cell_rel_trans)
  fix i
  from assms have "cell_rel (snd (entries a ! i)) (snd (entries a' ! i)) (snd (entries b ! i)) (snd (entries b' ! i))"
    and "cell_rel (snd (entries a' ! i)) (snd (entries a'' ! i)) (snd (entries b' ! i)) (snd (entries b'' ! i))"
    unfolding obj_rel_def by simp_all
  then show "cell_rel (snd (entries a ! i)) (snd (entries a'' ! i)) (snd (entries b ! i)) (snd (entries b'' ! i))"
    by (rule cell_rel_trans)
qed

lemma obj_rel_same: "obj_rel a a b b"
  by (simp add: obj_rel_def cell_rel_same)

lemma step_rel_trans:
  assumes "step_rel w1 w1' w2 w2'" "step_rel w1' w1'' w2' w2''"
  shows "step_rel w1 w1'' w2 w2''"
  unfolding step_rel_def
proof (intro conjI allI)
  show "same_shape w1 w1''"
    using assms unfolding step_rel_def by (elim conjE) (rule same_shape_trans)
  show "same_shape w2 w2''"
    using assms unfolding step_rel_def by (elim conjE) (rule same_shape_trans)
  fix a
  from assms have "obj_rel (engine w1 a) (engine w1' a) (engine w2 a) (engine w2' a)"
    and "obj_rel (engine w1' a) (engine w1'' a) (engine w2' a) (engine w2'' a)"
    unfolding step_rel_def by simp_all
  then show "obj_rel (engine w1 a) (engine w1'' a) (engine w2 a) (engine w2'' a)"
    by (rule obj_rel_trans)
qed

lemma step_rel_same: "step_rel w1 w1 w2 w2"
  by (simp add: step_rel_def same_shape_refl obj_rel_same)

lemma step_rel_shape:
  assumes "same_shape w1 w2" "step_rel w1 w1' w2 w2'"
  shows "same_shape w1' w2'"
proof -
  from assms(2) have a: "same_shape w1 w1'" and b: "same_shape w2 w2'"
    by (simp_all add: step_rel_def)
  from a have "same_shape w1' w1" by (rule same_shape_sym)
  then have "same_shape w1' w2" using assms(1) by (rule same_shape_trans)
  then show ?thesis using b by (rule same_shape_trans)
qed

lemma uniform_Some: "uniform Some"
  by (simp add: uniform_def step_rel_same)

lemma uniform_bind:
  assumes f: "uniform f" and g: "uniform g"
  shows "uniform (\<lambda>w. Option.bind (f w) g)"
  unfolding uniform_def
proof (intro allI impI conjI)
  fix w1 w2 assume s: "same_shape w1 w2"
  show "(Option.bind (f w1) g = None) = (Option.bind (f w2) g = None)"
  proof (cases "f w1")
    case None
    with f s have "f w2 = None" by (blast dest: uniformD_None)
    with None show ?thesis by simp
  next
    case (Some v1)
    with f s obtain v2 where v2: "f w2 = Some v2" and r: "step_rel w1 v1 w2 v2"
      by (blast dest: uniformD_Some)
    have s': "same_shape v1 v2" using s r by (rule step_rel_shape)
    from g s' have "(g v1 = None) = (g v2 = None)" unfolding uniform_def by blast
    with Some v2 show ?thesis by simp
  qed
next
  fix w1 w2 u1 u2
  assume s: "same_shape w1 w2"
    and 1: "Option.bind (f w1) g = Some u1" and 2: "Option.bind (f w2) g = Some u2"
  from 1 obtain v1 where v1: "f w1 = Some v1" and u1: "g v1 = Some u1"
    by (cases "f w1") auto
  from 2 obtain v2 where v2: "f w2 = Some v2" and u2: "g v2 = Some u2"
    by (cases "f w2") auto
  from f s v1 v2 have r: "step_rel w1 v1 w2 v2" unfolding uniform_def by blast
  have s': "same_shape v1 v2" using s r by (rule step_rel_shape)
  from g s' u1 u2 have r': "step_rel v1 u1 v2 u2" unfolding uniform_def by blast
  from r r' show "step_rel w1 u1 w2 u2" by (rule step_rel_trans)
qed

lemma uniform_Edge_compile: "uniform (\<lambda>w. Some (Edge_compile cc e x w))"
  unfolding uniform_def
  by (auto simp: Edge_compile_def upd_engine_def step_rel_def same_shape_def shape_def
        obj_rel_def cell_rel_def Condition_compile_def split: option.splits)

lemma uniform_AnimationNode_compile: "uniform (AnimationNode_compile e r)"
  unfolding uniform_def
  by (auto simp: AnimationNode_compile_def upd_engine_def step_rel_def same_shape_def shape_def
        obj_rel_def cell_rel_def Let_def split: option.splits)

lemma uniform_None: "uniform (\<lambda>w. None)"
  by (simp add: uniform_def)

lemma map_fst_nth_eq:
  "map fst xs = map fst ys \<Longrightarrow> i < length ys \<Longrightarrow> fst (xs ! i) = fst (ys ! i)"
  by (metis length_map nth_map)

lemma map_fst_update_snd: "map fst (xs[i := (fst (xs ! i), v)]) = map fst xs"
proof (cases "i < length xs")
  case True
  then show ?thesis by (simp add: map_update list_update_same_conv)
next
  case False
  then show ?thesis by (simp add: list_update_beyond)
qed

lemma same_shape_entries_length:
  assumes "same_shape w1 w2"
  shows "length (entries (engine w1 e)) = length (entries (engine w2 e))"
proof -
  from assms have "map fst (entries (engine w1 e)) = map fst (entries (engine w2 e))"
    by (simp add: same_shape_def shape_def)
  then show ?thesis by (rule map_eq_imp_length_eq)
qed

lemma upd_entry_rel:
  assumes s: "same_shape w1 w2"
  shows "step_rel w1
           (upd_engine e (\<lambda>y. y \<lparr> entries := (entries y)
               [i := (fst (entries y ! i), Condition_compile cc x (input_decl w1) (snd (entries y ! i)))] \<rparr>) w1)
           w2
           (upd_engine e (\<lambda>y. y \<lparr> entries := (entries y)
               [i := (fst (entries y ! i), Condition_compile cc x (input_decl w2) (snd (entries y ! i)))] \<rparr>) w2)"
proof -
  from s have d: "input_decl w1 = input_decl w2" by (simp add: same_shape_def)
  have sh: "same_shape w
      (upd_engine e (\<lambda>y. y \<lparr> entries := (entries y) [i := (fst (entries y ! i), g y)] \<rparr>) w)"
    for w g
    by (simp add: same_shape_def upd_engine_def shape_def map_fst_update_snd)
  have o: "obj_rel (engine w1 a)
      (engine (upd_engine e (\<lambda>y. y \<lparr> entries := (entries y)
               [i := (fst (entries y ! i), Condition_compile cc x (input_decl w1) (snd (entries y ! i)))] \<rparr>) w1) a)
      (engine w2 a)
      (engine (upd_engine e (\<lambda>y. y \<lparr> entries := (entries y)
               [i := (fst (entries y ! i), Condition_compile cc x (input_decl w2) (snd (entries y ! i)))] \<rparr>) w2) a)"
    for a
  proof (cases "a = e")
    case False
    then show ?thesis by (simp add: upd_engine_def obj_rel_same)
  next
    case True
    have l: "length (entries (engine w1 e)) = length (entries (engine w2 e))"
      using s by (rule same_shape_entries_length)
    show ?thesis
      unfolding obj_rel_def
    proof (intro conjI allI)
      fix j
      show "cell_rel (snd (entries (engine w1 a) ! j))
          (snd (entries (engine (upd_engine e (\<lambda>y. y \<lparr> entries := (entries y)
               [i := (fst (entries y ! i), Condition_compile cc x (input_decl w1) (snd (entries y ! i)))] \<rparr>) w1) a) ! j))
          (snd (entries (engine w2 a) ! j))
          (snd (entries (engine (upd_engine e (\<lambda>y. y \<lparr> entries := (entries y)
               [i := (fst (entries y ! i), Condition_compile cc x (input_decl w2) (snd (entries y ! i)))] \<rparr>) w2) a) ! j))"
      proof (cases "j = i \<and> i < length (entries (engine w1 e))")
        case True
        with \<open>a = e\<close> l d show ?thesis
          by (simp add: upd_engine_def cell_rel_def Condition_compile_def split: option.splits)
      next
        case False
        with \<open>a = e\<close> l show ?thesis
          by (cases "i < length (entries (engine w1 e))")
             (simp_all add: upd_engine_def cell_rel_def list_update_beyond)
      qed
    qed (simp_all add: True upd_engine_def cell_rel_def)
  qed
  show ?thesis unfolding step_rel_def by (intro conjI allI sh o)
qed

lemma uniform_entry_step:
  "uniform (\<lambda>w. if i < length (entries (engine w e))
                then Some (upd_engine e (\<lambda>y. y \<lparr> entries := (entries y)
                       [i := (fst (entries y ! i),
                              Condition_compile cc x (input_decl w) (snd (entries y ! i)))] \<rparr>) w)
                else None)"
  unfolding uniform_def
proof (intro allI impI)
  fix w1 w2 assume s: "same_shape w1 w2"
  have l: "length (entries (engine w1 e)) = length (entries (engine w2 e))"
    using s by (rule same_shape_entries_length)
  show "((if i < length (entries (engine w1 e))
                then Some (upd_engine e (\<lambda>y. y \<lparr> entries := (entries y)
                       [i := (fst (entries y ! i),
                              Condition_compile cc x (input_decl w1) (snd (entries y ! i)))] \<rparr>) w1)
                else None) = None) =
        ((if i < length (entries (engine w2 e))
                then Some (upd_engine e (\<lambda>y. y \<lparr> entries := (entries y)
                       [i := (fst (entries y ! i),
                              Condition_compile cc x (input_decl w2) (snd (entries y ! i)))] \<rparr>) w2)
                else None) = None) \<and>
        (\<forall>v1 v2. (if i < length (entries (engine w1 e))
                then Some (upd_engine e (\<lambda>y. y \<lparr> entries := (entries y)
                       [i := (fst (entries y ! i),
                              Condition_compile cc x (input_decl w1) (snd (entries y ! i)))] \<rparr>) w1)
                else None) = Some v1 \<longrightarrow>
          (if i < length (entries (engine w2 e))
                then Some (upd_engine e (\<lambda>y. y \<lparr> entries := (entries y)
                       [i := (fst (entries y ! i),
                              Condition_compile cc x (input_decl w2) (snd (entries y ! i)))] \<rparr>) w2)
                else None) = Some v2 \<longrightarrow> step_rel w1 v1 w2 v2)"
    using l upd_entry_rel [OF s, of e i cc x] by (auto split: if_splits)
qed

lemma uniform_compile_entries: "uniform (compile_entries cc e cs es i)"
proof (induction es arbitrary: i)
  case Nil
  have "compile_entries cc e cs [] i = Some" by (rule ext) simp
  then show ?case by (simp add: uniform_Some)
next
  case (Cons a es)
  show ?case
  proof (cases "\<exists>s t x. child_at cs a = Some (EntryEdge s t x)")
    case False
    then have "compile_entries cc e cs (a # es) i = (\<lambda>w. None)"
      by (intro ext) (auto split: option.splits Component.splits)
    then show ?thesis by (simp add: uniform_None)
  next
    case True
    then obtain s t x where c: "child_at cs a = Some (EntryEdge s t x)" by blast
    have "compile_entries cc e cs (a # es) i =
            (\<lambda>w. Option.bind
               (if i < length (entries (engine w e))
                then Some (upd_engine e (\<lambda>y. y \<lparr> entries := (entries y)
                       [i := (fst (entries y ! i),
                              Condition_compile cc x (input_decl w) (snd (entries y ! i)))] \<rparr>) w)
                else None)
               (compile_entries cc e cs es (Suc i)))"
      using c by (intro ext) simp
    then show ?thesis
      by (simp only: uniform_bind [OF uniform_entry_step Cons.IH])
  qed
qed

lemma uniform_compile_list:
  assumes "\<And>c. c \<in> set cs \<Longrightarrow> uniform (compile cc c)"
  shows "uniform (compile_list cc cs)"
  using assms
proof (induction cs)
  case Nil
  have "compile_list cc [] = Some" by (rule ext) simp
  then show ?case by (simp add: uniform_Some)
next
  case (Cons c cs)
  have "compile_list cc (c # cs) = (\<lambda>w. Option.bind (compile cc c w) (compile_list cc cs))"
    by (intro ext) (simp split: option.splits)
  moreover have "uniform (compile cc c)" by (rule Cons.prems) simp
  moreover have "uniform (compile_list cc cs)" by (rule Cons.IH) (simp add: Cons.prems)
  ultimately show ?case by (simp only: uniform_bind)
qed

lemma uniform_compile: "uniform (compile cc c)"
proof (induction c)
  case (Edge s e f t x)
  have "compile cc (Edge s e f t x) = (\<lambda>w. Some (Edge_compile cc e x w))" by (rule ext) simp
  then show ?case by (simp add: uniform_Edge_compile)
next
  case (AnimationNode s e nd r)
  have "compile cc (AnimationNode s e nd r) = AnimationNode_compile e r" by (rule ext) simp
  then show ?case by (simp add: uniform_AnimationNode_compile)
next
  case (EntryEdge s t x)
  have "compile cc (EntryEdge s t x) = Some" by (rule ext) simp
  then show ?case by (simp add: uniform_Some)
next
  case (EntryNode s nd es)
  have "compile cc (EntryNode s nd es) = Some" by (rule ext) simp
  then show ?case by (simp add: uniform_Some)
next
  case (StateMachine s e nd cs sel en)
  have l: "uniform (compile_list cc cs)"
    by (rule uniform_compile_list) (rule StateMachine.IH)
  show ?case
  proof (cases "\<exists>a nd1 es. child_at cs en = Some (EntryNode a nd1 es)")
    case False
    then have "compile cc (StateMachine s e nd cs sel en) =
                 (\<lambda>w. Option.bind (compile_list cc cs w) (\<lambda>w. None))"
      by (intro ext) (auto split: option.splits Component.splits)
    then show ?thesis by (simp only: uniform_bind [OF l uniform_None])
  next
    case True
    then obtain a nd1 es where c: "child_at cs en = Some (EntryNode a nd1 es)" by blast
    have "compile cc (StateMachine s e nd cs sel en) =
            (\<lambda>w. Option.bind (compile_list cc cs w) (compile_entries cc e cs es 0))"
      using c by (intro ext) (simp split: option.splits)
    then show ?thesis by (simp only: uniform_bind [OF l uniform_compile_entries])
  qed
qed

lemma AnimComponent_eqI:
  fixes x y :: AnimComponent
  assumes "shape x = shape y" "condition x = condition y"
    "root_rotation_input_offset x = root_rotation_input_offset y"
    "\<forall>i. snd (entries x ! i) = snd (entries y ! i)"
  shows "x = y"
proof -
  from assms(1) have m: "map fst (entries x) = map fst (entries y)" by (simp add: shape_def)
  then have l: "length (entries x) = length (entries y)" by (rule map_eq_imp_length_eq)
  have "entries x = entries y"
  proof (rule nth_equalityI [OF l])
    fix i assume i: "i < length (entries x)"
    from m have "map fst (entries x) ! i = map fst (entries y) ! i" by simp
    with i l have "fst (entries x ! i) = fst (entries y ! i)" by simp
    with assms(4) show "entries x ! i = entries y ! i" by (simp add: prod_eq_iff)
  qed
  with assms show ?thesis by (intro AnimComponent.equality) (simp_all add: shape_def)
qed

lemma uniform_idem:
  assumes "uniform f"
  shows "Option.bind (f w) f = f w"
proof (cases "f w")
  case None
  then show ?thesis by simp
next
  case (Some v)
  from assms same_shape_refl Some obtain v0 where "f w = Some v0" and r0: "step_rel w v w v0"
    by (blast dest: uniformD_Some)
  then have sv: "same_shape w v" by (simp add: step_rel_def)
  from assms sv Some obtain u where u: "f v = Some u" and r: "step_rel w v v u"
    by (blast dest: uniformD_Some)
  have "u = v"
  proof -
    from r have s: "same_shape v u" and o: "\<And>a. obj_rel (engine w a) (engine v a) (engine v a) (engine u a)"
      by (simp_all add: step_rel_def)
    have c: "y = x" if "cell_rel z x x y" for x y z :: 'v
      using that by (auto simp: cell_rel_def)
    have "engine u a = engine v a" for a
    proof (rule AnimComponent_eqI)
      show "shape (engine u a) = shape (engine v a)" using s by (simp add: same_shape_def)
      show "condition (engine u a) = condition (engine v a)"
        using o [of a] unfolding obj_rel_def by (blast dest: c)
      show "root_rotation_input_offset (engine u a) = root_rotation_input_offset (engine v a)"
        using o [of a] unfolding obj_rel_def by (blast dest: c)
      show "\<forall>i. snd (entries (engine u a) ! i) = snd (entries (engine v a) ! i)"
        using o [of a] unfolding obj_rel_def by (blast dest: c)
    qed
    then have "engine u = engine v" by (rule ext)
    with s show ?thesis by (intro World.equality) (simp_all add: same_shape_def)
  qed
  with Some u show ?thesis by simp
qed

lemma compile_idem: "Option.bind (compile cc c w) (compile cc c) = compile cc c w"
  using uniform_compile [of cc c] by (rule uniform_idem)

text \<open>
  C7.  Compiling twice with no edit in between leaves the same compiled state as
  compiling once: the second \<open>compile\<close> of any component returns the world the
  first one left (and when the first call fails there is no second one).  The
  condition compiler \<open>cc\<close> is arbitrary.
\<close>

theorem compile_twice_is_compile_once:
  "Option.bind (compile cc c w) (compile cc c) = compile cc c w"
  by (rule compile_idem)

subsection \<open>Serialization compiles first\<close>


subsection \<open>Deserialization and unresolvable UIDs\<close>

text \<open>
  C6.  Loading a blob with a UID of no component should fail.  The blob
  \<open>corrupt_blob\<close> names the UID 99 of no component as the first endpoint of an
  edge.  \<open>ControllerResource::deserialize\<close> returns true, and the graph it has built
  holds the edge with a null \<open>m_from\<close>, which the constructor of \<open>Edge\<close> asserts
  never to be null (lines 311-312).  \<open>Edge::serialize\<close> dereferences it (line 381):
  the loaded controller cannot be saved.
\<close>

theorem deserialize_accepts_unresolvable_uid:
  "(case ControllerResource_deserialize corrupt_blob of
      ReturnedTrue c \<Rightarrow>
        (case m_root c of
           StateMachine s e nd cs sel en \<Rightarrow>
             getChildByUID (world c) cs 99 = None \<and>
             child_at cs 13 = Some (Edge 13 7 None (Some 12) []) \<and>
             serialize (world c) [] (m_root c) = None \<and>
             ControllerResource_serialize no_compiler c = None
         | _ \<Rightarrow> False)
    | _ \<Rightarrow> False)"
  by code_simp

subsection \<open>Uniqueness of the UIDs\<close>


lemma kinds_ok_list_append [simp]:
  "kinds_ok_list w (xs @ ys) = (kinds_ok_list w xs \<and> kinds_ok_list w ys)"
  by (induction xs) auto


lemma alltwins_list_set: "set (alltwins_list cs) = (\<Union>c \<in> set cs. set (alltwins c))"
  by (induction cs) auto














lemma strip_map_node [simp]: "strip (map_node g c) = strip c"
  by (cases c) simp_all
















































































lemma read_int_TInt: "read_int (TInt i # r) = (i, r)"
  by (simp add: read_int_def)









lemma Container_deserialize_skip:
  "u < 0 \<Longrightarrow> Container_deserialize k (Suc n) pe acc (w0, TInt u # b) =
     Container_deserialize k n pe acc (w0, b)"
  by (simp add: read_int_TInt)








































end
